theory Spec2Isabelle
  imports Complex_Main
begin

section \<open>Data model (frontend/src/lib/api.ts)\<close>

text \<open>
  The browser's \<^verbatim>\<open>File\<close> object, reduced to the three properties the code reads:
  \<^verbatim>\<open>file.name\<close>, \<^verbatim>\<open>file.type\<close> and \<^verbatim>\<open>file.size\<close> (a byte count, never negative).
\<close>

record File =
  file_name :: string
  file_type :: string
  file_size :: nat

text \<open>\<^verbatim>\<open>interface Finding\<close>. The confidence score is only displayed.\<close>

record Finding =
  finding_id :: int
  category :: string
  severity :: string
  summary :: string
  recommendation :: "string option"
  page_num :: int
  confidence_score :: rat

text \<open>\<^verbatim>\<open>interface IngestResponse\<close>, \<^verbatim>\<open>interface AnalysisStatus\<close> and the progress payload.\<close>

record IngestResponse =
  ingest_document_id :: string
  ingest_filename :: string
  total_pages :: int
  analysis_status :: string

record AnalysisStatus =
  status_document_id :: string
  status :: string
  findings_count :: "int option"

record ProgressData =
  progress_status :: string
  progress :: int
  progress_message :: string

text \<open>
  What a rejected request carries, as far as the handlers read it:
  \<^verbatim>\<open>error.response?.data?.detail\<close> and \<^verbatim>\<open>error.message\<close>.
\<close>

record ApiError =
  detail :: "string option"
  error_message :: "string option"

text \<open>
  The calls of \<^verbatim>\<open>apiService\<close>, one constructor per method, and the one request that
  bypasses it: the \<^verbatim>\<open>fetch(pdfUrl)\<close> of PDFViewer.tsx, which carries its whole URL.
  A value of this type is one request put on the network; a log of them is the
  call-count spy.
\<close>

datatype request =
    UploadDocument File
  | GetAnalysisStatus string
  | GetFindings string
  | GetFindingsByCategory string string
  | SendChatMessage int string
  | HealthCheck
  | GetProgress string
  | FetchUrl string

text \<open>The \<^verbatim>\<open>toast({title, description, variant})\<close> notifications (emoji of the titles left out).\<close>

datatype variant = Default | Destructive

record Toast =
  toast_title :: string
  toast_description :: string
  toast_variant :: variant

section \<open>JavaScript primitives the handlers rely on\<close>

text \<open>\<^verbatim>\<open>String.prototype.includes\<close>: a contiguous, case-sensitive substring test.\<close>

fun str_includes :: "string \<Rightarrow> string \<Rightarrow> bool" where
  "str_includes [] sub = (sub = [])"
| "str_includes (c # cs) sub = (take (length sub) (c # cs) = sub \<or> str_includes cs sub)"

text \<open>
  Truthiness of a \<^verbatim>\<open>string | null\<close>: \<^verbatim>\<open>null\<close> and the empty string are falsy.
\<close>

fun truthy :: "string option \<Rightarrow> bool" where
  "truthy None = False"
| "truthy (Some s) = (s \<noteq> [])"

text \<open>\<^verbatim>\<open>a || b\<close> on an optional string and a string default.\<close>

fun or_else :: "string option \<Rightarrow> string \<Rightarrow> string" where
  "or_else None d = d"
| "or_else (Some s) d = (if s = [] then d else s)"

section \<open>The module-level file slot (lib/state.ts)\<close>

text \<open>
  \<^verbatim>\<open>let currentFile: File | null = null\<close> is the whole state of the module; the three
  members of \<^verbatim>\<open>fileState\<close> read and write it.
\<close>

record module_state =
  currentFile :: "File option"

definition initial_module :: module_state where
  "initial_module = \<lparr> currentFile = None \<rparr>"

definition setFile :: "File \<Rightarrow> module_state \<Rightarrow> module_state" where
  "setFile file m = m \<lparr> currentFile := Some file \<rparr>"

definition getFile :: "module_state \<Rightarrow> File option" where
  "getFile m = currentFile m"

definition clearFile :: "module_state \<Rightarrow> module_state" where
  "clearFile m = m \<lparr> currentFile := None \<rparr>"

section \<open>Number formatting in the template strings\<close>

text \<open>The decimal digit of a number below ten.\<close>

definition digit :: "nat \<Rightarrow> char" where
  "digit n = ''0123456789'' ! n"

fun string_of_nat :: "nat \<Rightarrow> string" where
  "string_of_nat n = (if n < 10 then [digit n] else string_of_nat (n div 10) @ [digit (n mod 10)])"

definition string_of_int :: "int \<Rightarrow> string" where
  "string_of_int i = (if i < 0 then CHR ''-'' # string_of_nat (nat (- i)) else string_of_nat (nat i))"

text \<open>
  \<^verbatim>\<open>(file.size / 1024 / 1024).toFixed(2)\<close>: the two divisions by a power of two are
  exact, and \<^verbatim>\<open>toFixed(2)\<close> picks the integer \<open>n\<close> with \<open>n / 100\<close> nearest to the value,
  the larger one on a tie.
\<close>

definition toFixed2_MB :: "nat \<Rightarrow> string" where
  "toFixed2_MB sz =
     (let n = (sz * 200 + 1048576) div 2097152
      in string_of_nat (n div 100) @ ''.'' @ [digit (n mod 100 div 10), digit (n mod 10)])"

section \<open>The analysis page (pages/Analysis.tsx)\<close>

subsection \<open>Component state\<close>

record AnalysisState =
  documentId :: "string option"
  filename :: "string option"
  isUploading :: bool
  isAnalyzing :: bool

datatype step_status = StepPending | StepInProgress | StepCompleted | StepError

datatype icon =
  IconUpload | IconCheckCircle2 | IconAlertCircle | IconFileText | IconCpu | IconDatabase
  | IconBrain | IconClock | IconNetwork | IconFileCheck

text \<open>\<^verbatim>\<open>interface ProcessStep\<close>, without its wall-clock \<^verbatim>\<open>timestamp\<close>.\<close>

record ProcessStep =
  step_id :: string
  step_title :: string
  step_status :: step_status
  step_message :: string
  step_icon :: "icon option"

text \<open>
  The \<^verbatim>\<open>useState\<close> cells of the component, the data of its three queries
  (\<^verbatim>\<open>analysisStatus\<close>, \<^verbatim>\<open>progressData\<close>, and \<^verbatim>\<open>findings\<close> with its error and
  whether a fetch of it is in flight), the toasts shown so far and the requests put on
  the network so far. \<open>pageFile\<close> is the
  component's own \<^verbatim>\<open>currentFile\<close> cell (the module of lib/state.ts has the other one).
\<close>

record Analysis =
  analysisState :: AnalysisState
  selectedFinding :: "Finding option"
  processSteps :: "ProcessStep list"
  uploadProgress :: int
  analysisProgress :: int
  pageFile :: "File option"
  currentPage :: int
  selectedCategory :: string
  analysisStatus :: "AnalysisStatus option"
  progressData :: "ProgressData option"
  findingsData :: "Finding list option"
  findingsFetching :: bool
  findingsError :: "ApiError option"
  toasts :: "Toast list"
  network :: "request list"

definition initial_Analysis :: Analysis where
  "initial_Analysis =
     \<lparr> analysisState = \<lparr> documentId = None, filename = None, isUploading = False, isAnalyzing = False \<rparr>,
       selectedFinding = None, processSteps = [], uploadProgress = 0, analysisProgress = 0,
       pageFile = None, currentPage = 1, selectedCategory = ''all'',
       analysisStatus = None, progressData = None, findingsData = None,
       findingsFetching = False, findingsError = None,
       toasts = [], network = [] \<rparr>"

definition toast :: "Toast \<Rightarrow> Analysis \<Rightarrow> Analysis" where
  "toast t s = s \<lparr> toasts := toasts s @ [t] \<rparr>"

definition send :: "request \<Rightarrow> Analysis \<Rightarrow> Analysis" where
  "send r s = s \<lparr> network := network s @ [r] \<rparr>"

definition addProcessStep :: "ProcessStep \<Rightarrow> Analysis \<Rightarrow> Analysis" where
  "addProcessStep step s = s \<lparr> processSteps := processSteps s @ [step] \<rparr>"

text \<open>
  \<^verbatim>\<open>updateProcessStep(id, {status, message, icon})\<close>: every call site passes exactly
  these three fields.
\<close>

definition updateProcessStep :: "string \<Rightarrow> step_status \<Rightarrow> string \<Rightarrow> icon \<Rightarrow> Analysis \<Rightarrow> Analysis" where
  "updateProcessStep i st msg ic s =
     s \<lparr> processSteps :=
           map (\<lambda>step. if step_id step = i
                        then step \<lparr> step_status := st, step_message := msg, step_icon := Some ic \<rparr>
                        else step)
               (processSteps s) \<rparr>"

subsection \<open>Upload\<close>

definition invalid_type_toast :: Toast where
  "invalid_type_toast =
     \<lparr> toast_title = ''Invalid file type'', toast_description = ''Please upload a PDF file'',
       toast_variant = Destructive \<rparr>"

definition too_large_toast :: Toast where
  "too_large_toast =
     \<lparr> toast_title = ''File too large'',
       toast_description = ''Please upload a file smaller than 10MB'',
       toast_variant = Destructive \<rparr>"

text \<open>
  \<^verbatim>\<open>uploadMutation.mutate(file)\<close> runs \<^verbatim>\<open>mutationFn\<close> once (a mutation is not retried
  unless asked to): the first process step, then the one call of
  \<^verbatim>\<open>apiService.uploadDocument\<close>, where the function waits. The interval timer that
  animates \<^verbatim>\<open>uploadProgress\<close> meanwhile is not modelled.
\<close>

definition uploadMutation_mutate :: "File \<Rightarrow> Analysis \<Rightarrow> Analysis" where
  "uploadMutation_mutate file s =
     send (UploadDocument file)
       (addProcessStep
          \<lparr> step_id = ''upload-start'', step_title = ''File Upload Started'',
            step_status = StepInProgress,
            step_message = ''Uploading '' @ file_name file @ '' ('' @ toFixed2_MB (file_size file) @ '' MB)...'',
            step_icon = Some IconUpload \<rparr> s)"

text \<open>
  \<^verbatim>\<open>handleFileUpload\<close>. The argument is optional for the guard \<^verbatim>\<open>if (!file) return\<close>.
\<close>

definition handleFileUpload :: "File option \<Rightarrow> Analysis \<Rightarrow> Analysis" where
  "handleFileUpload fo s =
     (case fo of
        None \<Rightarrow> s
      | Some file \<Rightarrow>
          let s1 = s \<lparr> processSteps := [], uploadProgress := 0, analysisProgress := 0,
                       selectedFinding := None, pageFile := Some file \<rparr>
          in if \<not> str_includes (file_type file) ''pdf'' then toast invalid_type_toast s1
             else if file_size file > 10 * 1024 * 1024 then toast too_large_toast s1
             else uploadMutation_mutate file
                    (s1 \<lparr> analysisState := (analysisState s1) \<lparr> isUploading := True \<rparr> \<rparr>))"

text \<open>
  The three queries have the document id in their \<^verbatim>\<open>queryKey\<close>: when the id changes,
  they start again without data.
\<close>

definition rekey_queries :: "string option \<Rightarrow> Analysis \<Rightarrow> Analysis" where
  "rekey_queries old s =
     (if documentId (analysisState s) = old then s
      else s \<lparr> analysisStatus := None, progressData := None, findingsData := None,
               findingsFetching := False, findingsError := None \<rparr>)"

text \<open>
  The rest of \<^verbatim>\<open>mutationFn\<close> after the upload call settles, followed by \<^verbatim>\<open>onSuccess\<close>
  or \<^verbatim>\<open>onError\<close>. The two \<^verbatim>\<open>setTimeout\<close> callbacks that later mark the embedding and
  vector-store steps completed are not modelled.
\<close>

definition uploadMutation_settled :: "ApiError + IngestResponse \<Rightarrow> Analysis \<Rightarrow> Analysis" where
  "uploadMutation_settled r s =
     (case r of
        Inr result \<Rightarrow>
          let s1 = s \<lparr> uploadProgress := 50 \<rparr>;
              s2 = updateProcessStep ''upload-start'' StepCompleted
                     (''Upload completed! Document ID: '' @ take 8 (ingest_document_id result) @ ''...'')
                     IconCheckCircle2 s1;
              s3 = addProcessStep
                     \<lparr> step_id = ''text-extraction'', step_title = ''Text Extraction'',
                       step_status = StepCompleted,
                       step_message = ''Extracted '' @ string_of_int (total_pages result) @ '' pages successfully.'',
                       step_icon = Some IconFileText \<rparr> s2;
              s4 = addProcessStep
                     \<lparr> step_id = ''embedding-generation'', step_title = ''Embedding Generation'',
                       step_status = StepInProgress,
                       step_message = ''Generating document embeddings for semantic search...'',
                       step_icon = Some IconCpu \<rparr> s3;
              s5 = addProcessStep
                     \<lparr> step_id = ''vector-store'', step_title = ''Vector Database'',
                       step_status = StepInProgress,
                       step_message = ''Storing document chunks in vector database...'',
                       step_icon = Some IconDatabase \<rparr> s4;
              s6 = addProcessStep
                     \<lparr> step_id = ''analysis'', step_title = ''AI Analysis'',
                       step_status = StepInProgress,
                       step_message = ''Starting AI-powered insurance concern analysis...'',
                       step_icon = Some IconBrain \<rparr> s5;
              s7 = s6 \<lparr> analysisProgress := 25 \<rparr>;
              s8 = s7 \<lparr> analysisState := (analysisState s7)
                          \<lparr> documentId := Some (ingest_document_id result),
                            filename := Some (ingest_filename result),
                            isUploading := False, isAnalyzing := True \<rparr> \<rparr>;
              s9 = rekey_queries (documentId (analysisState s7)) s8
          in toast \<lparr> toast_title = ''Upload successful!'',
                     toast_description = ''Your document is being analyzed. This may take a few minutes.'',
                     toast_variant = Default \<rparr> s9
      | Inl err \<Rightarrow>
          let s1 = s \<lparr> uploadProgress := 0 \<rparr>;
              s2 = updateProcessStep ''upload-start'' StepError
                     (''Upload failed: '' @ (case error_message err of Some m \<Rightarrow> m | None \<Rightarrow> ''Unknown error''))
                     IconAlertCircle s1;
              s3 = s2 \<lparr> analysisState := (analysisState s2) \<lparr> isUploading := False \<rparr> \<rparr>
          in toast \<lparr> toast_title = ''Upload failed'',
                     toast_description =
                       or_else (detail err) (or_else (error_message err) ''Failed to upload document''),
                     toast_variant = Destructive \<rparr> s3)"

subsection \<open>The three queries\<close>

text \<open>
  The query library is not part of the repository; the model takes from its documented
  behaviour what the page relies on. A query fetches when its \<^verbatim>\<open>enabled\<close> becomes true
  and, with \<^verbatim>\<open>refetchInterval: 2000\<close>, again at every interval tick while it is
  enabled; a query with \<^verbatim>\<open>enabled\<close> false does neither; \<^verbatim>\<open>refetch()\<close> fetches whether
  the query is enabled or not. One entry in the network log stands for one fetch (the
  retries of a failing fetch, \<^verbatim>\<open>retry: 3\<close>, belong to it). Refetches on window focus and
  on reconnecting, which only enabled queries make, are outside the model.

  \<open>observed_status\<close> is \<^verbatim>\<open>analysisStatus?.status\<close>.
\<close>

definition observed_status :: "Analysis \<Rightarrow> string option" where
  "observed_status s = map_option status (analysisStatus s)"

definition status_query_enabled :: "Analysis \<Rightarrow> bool" where
  "status_query_enabled s = truthy (documentId (analysisState s))"

definition progress_query_enabled :: "Analysis \<Rightarrow> bool" where
  "progress_query_enabled s =
     (truthy (documentId (analysisState s)) \<and> observed_status s \<noteq> Some ''completed'')"

definition findings_query_enabled :: "Analysis \<Rightarrow> bool" where
  "findings_query_enabled s =
     (truthy (documentId (analysisState s)) \<and> observed_status s = Some ''completed'')"

text \<open>The requests of one polling tick: the status query first, then the progress query.\<close>

definition tick_requests :: "Analysis \<Rightarrow> request list" where
  "tick_requests s =
     (case documentId (analysisState s) of
        None \<Rightarrow> []
      | Some d \<Rightarrow>
          (if status_query_enabled s then [GetAnalysisStatus d] else []) @
          (if progress_query_enabled s then [GetProgress d] else []))"

definition interval_tick :: "Analysis \<Rightarrow> Analysis" where
  "interval_tick s = s \<lparr> network := network s @ tick_requests s \<rparr>"

text \<open>The \<^verbatim>\<open>useEffect\<close> on \<^verbatim>\<open>analysisStatus\<close>.\<close>

definition analysisStatus_effect :: "Analysis \<Rightarrow> Analysis" where
  "analysisStatus_effect s =
     (case analysisStatus s of
        None \<Rightarrow> s
      | Some a \<Rightarrow>
          if status a = ''completed'' then
            let s1 = s \<lparr> analysisProgress := 100 \<rparr>;
                s2 = updateProcessStep ''analysis'' StepCompleted
                       (''Analysis completed! Found '' @
                        string_of_int (case findings_count a of None \<Rightarrow> 0 | Some n \<Rightarrow> n) @
                        '' concerns.'')
                       IconCheckCircle2 s1
            in s2 \<lparr> analysisState := (analysisState s2) \<lparr> isAnalyzing := False \<rparr> \<rparr>
          else if status a = ''failed'' then
            let s1 = updateProcessStep ''analysis'' StepError ''Analysis failed. Please try again.''
                       IconAlertCircle s
            in s1 \<lparr> analysisState := (analysisState s1) \<lparr> isAnalyzing := False \<rparr> \<rparr>
          else s)"

text \<open>The \<^verbatim>\<open>useEffect\<close> on \<^verbatim>\<open>progressData\<close>.\<close>

definition progressData_effect :: "Analysis \<Rightarrow> Analysis" where
  "progressData_effect s =
     (case progressData s of
        None \<Rightarrow> s
      | Some p \<Rightarrow>
          let s1 = s \<lparr> analysisProgress := progress p \<rparr>
          in if progress_status p = ''analyzing'' then
               updateProcessStep ''analysis'' StepInProgress (progress_message p) IconBrain s1
             else if progress_status p = ''pending'' then
               updateProcessStep ''analysis'' StepInProgress (progress_message p) IconClock s1
             else if progress_status p = ''completed'' then
               (updateProcessStep ''analysis'' StepCompleted ''Analysis completed successfully!''
                  IconCheckCircle2 s1) \<lparr> analysisProgress := 100 \<rparr>
             else if progress_status p = ''failed'' then
               updateProcessStep ''analysis'' StepError ''Analysis failed. Please try again.''
                 IconAlertCircle s1
             else s1)"

text \<open>
  The findings query as an observer of the page. When a render turns its \<^verbatim>\<open>enabled\<close>
  from false to true, it fetches, whether it has data or not (data is stale at once, no
  \<^verbatim>\<open>staleTime\<close> being set), unless a fetch of it is in flight already, which it then
  joins. While \<^verbatim>\<open>enabled\<close> stays true nothing fetches again by itself, not after a
  failed fetch either. \<open>was_enabled\<close> is \<^verbatim>\<open>enabled\<close> as of the render before.
\<close>

definition findings_query_observe :: "bool \<Rightarrow> Analysis \<Rightarrow> Analysis" where
  "findings_query_observe was_enabled s =
     (case documentId (analysisState s) of
        None \<Rightarrow> s
      | Some d \<Rightarrow>
          if findings_query_enabled s \<and> \<not> was_enabled \<and> \<not> findingsFetching s
          then send (GetFindings d) (s \<lparr> findingsFetching := True \<rparr>)
          else s)"

text \<open>
  A response of the status query: the data, its effect when the data is new (the
  dependency array of the effect; the library keeps the old object when the new one is
  equal), and the findings query observing the render that follows. Likewise for the
  progress query.
\<close>

definition status_response :: "AnalysisStatus \<Rightarrow> Analysis \<Rightarrow> Analysis" where
  "status_response a s =
     findings_query_observe (findings_query_enabled s)
       (if analysisStatus s = Some a then s
        else analysisStatus_effect (s \<lparr> analysisStatus := Some a \<rparr>))"

definition progress_response :: "ProgressData \<Rightarrow> Analysis \<Rightarrow> Analysis" where
  "progress_response p s =
     (if progressData s = Some p then s
      else progressData_effect (s \<lparr> progressData := Some p \<rparr>))"

text \<open>\<^verbatim>\<open>const { data: findings = [] }\<close>.\<close>

definition findings :: "Analysis \<Rightarrow> Finding list" where
  "findings s = (case findingsData s of None \<Rightarrow> [] | Some fs \<Rightarrow> fs)"

text \<open>
  A settled fetch of the findings query, followed by the two effects on \<^verbatim>\<open>findings\<close> and
  \<^verbatim>\<open>findingsError\<close>. The effect on \<^verbatim>\<open>findings\<close> runs when the data is new (the library
  keeps the old array when the new one is equal) and adds a step only for a non-empty list.
\<close>

definition findings_response :: "ApiError + Finding list \<Rightarrow> Analysis \<Rightarrow> Analysis" where
  "findings_response r s =
     (case r of
        Inr fs \<Rightarrow>
          let s1 = s \<lparr> findingsData := Some fs, findingsFetching := False, findingsError := None \<rparr>
          in if findingsData s \<noteq> Some fs \<and> length fs > 0 then
               addProcessStep
                 \<lparr> step_id = ''findings-loaded'', step_title = ''Findings Retrieved'',
                   step_status = StepCompleted,
                   step_message = ''Successfully loaded '' @ string_of_nat (length fs) @
                                  '' findings from analysis.'',
                   step_icon = Some IconFileCheck \<rparr> s1
             else s1
      | Inl err \<Rightarrow>
          addProcessStep
            \<lparr> step_id = ''findings-error'', step_title = ''Findings Error'',
              step_status = StepError,
              step_message = ''Failed to load findings: '' @
                 (case error_message err of Some m \<Rightarrow> m | None \<Rightarrow> ''Unknown error''),
              step_icon = Some IconAlertCircle \<rparr>
            (s \<lparr> findingsFetching := False, findingsError := Some err \<rparr>))"

text \<open>
  The refresh button: \<^verbatim>\<open>refetchStatus(); refetchFindings()\<close>, disabled while there is no
  document id. \<^verbatim>\<open>refetch()\<close> starts a fetch whether the query is enabled or not; only
  when a first fetch (one with no data yet) is in flight does it join that fetch instead.
  The status query is taken to be idle when the button is pressed, as it is between two
  ticks of the poller.
\<close>

definition manual_refresh :: "Analysis \<Rightarrow> Analysis" where
  "manual_refresh s =
     (case documentId (analysisState s) of
        None \<Rightarrow> s
      | Some d \<Rightarrow>
          if \<not> truthy (Some d) then s
          else let s1 = send (GetAnalysisStatus d) s
               in if findingsFetching s1 \<and> findingsData s1 = None then s1
                  else (send (GetFindings d) s1) \<lparr> findingsFetching := True \<rparr>)"

text \<open>
  A run of the poller: at every tick the requests go out and the status response of that
  tick arrives before the next tick.
\<close>

fun poll :: "AnalysisStatus list \<Rightarrow> Analysis \<Rightarrow> Analysis" where
  "poll [] s = s"
| "poll (a # as) s = poll as (status_response a (interval_tick s))"

subsection \<open>Filtering and pagination\<close>

text \<open>
  \<^verbatim>\<open>Array.prototype.slice(start, end)\<close>: a negative index counts from the end, and both
  indices are clipped to the array.
\<close>

definition js_slice :: "'a list \<Rightarrow> int \<Rightarrow> int \<Rightarrow> 'a list" where
  "js_slice xs start fin =
     (let len = int (length xs);
          k = (if start < 0 then max (len + start) 0 else min start len);
          final = (if fin < 0 then max (len + fin) 0 else min fin len)
      in take (nat (final - k)) (drop (nat k) xs))"

definition itemsPerPage :: int where
  "itemsPerPage = 10"

definition filteredFindings :: "Analysis \<Rightarrow> Finding list" where
  "filteredFindings s =
     (if selectedCategory s = ''all'' then findings s
      else filter (\<lambda>finding. category finding = selectedCategory s) (findings s))"

text \<open>
  \<^verbatim>\<open>Math.ceil(filteredFindings.length / itemsPerPage)\<close>; the quotient of an array length
  by ten is far from the range where floating-point division could round across an
  integer, so the exact quotient is taken.
\<close>

definition totalPages :: "Analysis \<Rightarrow> int" where
  "totalPages s = \<lceil>rat_of_nat (length (filteredFindings s)) / rat_of_int itemsPerPage\<rceil>"

definition startIndex :: "Analysis \<Rightarrow> int" where
  "startIndex s = (currentPage s - 1) * itemsPerPage"

definition endIndex :: "Analysis \<Rightarrow> int" where
  "endIndex s = startIndex s + itemsPerPage"

definition paginatedFindings :: "Analysis \<Rightarrow> Finding list" where
  "paginatedFindings s = js_slice (filteredFindings s) (startIndex s) (endIndex s)"

text \<open>
  The category buttons and the two pagination buttons. The pagination row is rendered
  only when there is more than one page; each button is disabled at its end of the range.
\<close>

definition selectCategory :: "string \<Rightarrow> Analysis \<Rightarrow> Analysis" where
  "selectCategory c s = s \<lparr> selectedCategory := c, currentPage := 1 \<rparr>"

definition previousPage :: "Analysis \<Rightarrow> Analysis" where
  "previousPage s =
     (if totalPages s > 1 \<and> currentPage s \<noteq> 1
      then s \<lparr> currentPage := max (currentPage s - 1) 1 \<rparr> else s)"

definition nextPage :: "Analysis \<Rightarrow> Analysis" where
  "nextPage s =
     (if totalPages s > 1 \<and> currentPage s \<noteq> totalPages s
      then s \<lparr> currentPage := min (currentPage s + 1) (totalPages s) \<rparr> else s)"

section \<open>The chat panel (components/ChatPanel.tsx)\<close>

datatype sender = User | Bot

text \<open>\<^verbatim>\<open>interface ChatMessage\<close>, without its wall-clock \<^verbatim>\<open>timestamp\<close>.\<close>

record ChatMessage =
  message_id :: string
  message_type :: sender
  content :: string

record ChatResponse =
  answer :: string
  response_finding_id :: int
  context_category :: string
  context_summary :: string
  context_text_content :: string

text \<open>
  The four \<^verbatim>\<open>useState\<close> cells of the panel, with the toasts it has shown and the requests
  it has put on the network. The selected finding is a property the parent passes in, so
  the handlers below take it as an argument.
\<close>

record ChatPanel =
  inputValue :: string
  messages :: "ChatMessage list"
  currentFindingId :: "int option"
  isLoading :: bool
  chat_toasts :: "Toast list"
  chat_network :: "request list"

definition initial_ChatPanel :: ChatPanel where
  "initial_ChatPanel =
     \<lparr> inputValue = [], messages = [], currentFindingId = None, isLoading = False,
       chat_toasts = [], chat_network = [] \<rparr>"

text \<open>
  \<^verbatim>\<open>!inputValue.trim()\<close>: the trimmed input is empty exactly when every character is white
  space or a line terminator. Strings here are sequences of 8-bit characters, where those
  are the codes 9 to 13, 32 and 160.
\<close>

definition is_js_space :: "char \<Rightarrow> bool" where
  "is_js_space c = (of_char c \<in> {9, 10, 11, 12, 13, 32, 160 :: nat})"

definition blank :: "string \<Rightarrow> bool" where
  "blank s = list_all is_js_space s"

definition context_message :: "Finding \<Rightarrow> ChatMessage" where
  "context_message finding =
     \<lparr> message_id = ''context-'' @ string_of_int (finding_id finding),
       message_type = Bot,
       content = ''Now discussing: '' @ category finding @ '' on page '' @
                 string_of_int (page_num finding) @ ''. '' @ summary finding \<rparr>"

text \<open>
  The \<^verbatim>\<open>useEffect\<close> on \<^verbatim>\<open>finding.id\<close> and \<^verbatim>\<open>currentFindingId\<close>; it runs when the panel
  mounts and whenever the parent passes another finding.
\<close>

definition finding_effect :: "Finding \<Rightarrow> ChatPanel \<Rightarrow> ChatPanel" where
  "finding_effect finding s =
     (if Some (finding_id finding) \<noteq> currentFindingId s
      then s \<lparr> currentFindingId := Some (finding_id finding),
               messages := messages s @ [context_message finding] \<rparr>
      else s)"

definition setInputValue :: "string \<Rightarrow> ChatPanel \<Rightarrow> ChatPanel" where
  "setInputValue v s = s \<lparr> inputValue := v \<rparr>"

definition user_message :: "nat \<Rightarrow> string \<Rightarrow> ChatMessage" where
  "user_message now body = \<lparr> message_id = string_of_nat now, message_type = User, content = body \<rparr>"

definition bot_message :: "nat \<Rightarrow> string \<Rightarrow> ChatMessage" where
  "bot_message now body = \<lparr> message_id = string_of_nat (now + 1), message_type = Bot, content = body \<rparr>"

text \<open>
  \<^verbatim>\<open>handleSendMessage\<close> up to its \<^verbatim>\<open>await\<close>; \<open>now\<close> is the reading of \<^verbatim>\<open>Date.now()\<close>.
\<close>

definition handleSendMessage :: "Finding \<Rightarrow> nat \<Rightarrow> ChatPanel \<Rightarrow> ChatPanel" where
  "handleSendMessage finding now s =
     (if blank (inputValue s) \<or> isLoading s then s
      else s \<lparr> messages := messages s @ [user_message now (inputValue s)],
               inputValue := [],
               isLoading := True,
               chat_network := chat_network s @ [SendChatMessage (finding_id finding) (inputValue s)] \<rparr>)"

definition fallback_text :: string where
  "fallback_text = ''Sorry, I encountered an error while processing your question. Please try again.''"

text \<open>
  The rest of \<^verbatim>\<open>handleSendMessage\<close>, run on the state of the moment the request settles:
  the \<^verbatim>\<open>try\<close> branch for a response, the \<^verbatim>\<open>catch\<close> branch for a failure, and
  \<^verbatim>\<open>finally\<close>.
\<close>

definition handleSendMessage_settled :: "ApiError + ChatResponse \<Rightarrow> nat \<Rightarrow> ChatPanel \<Rightarrow> ChatPanel" where
  "handleSendMessage_settled r now s =
     (case r of
        Inr response \<Rightarrow>
          s \<lparr> messages := messages s @ [bot_message now (answer response)], isLoading := False \<rparr>
      | Inl err \<Rightarrow>
          s \<lparr> messages := messages s @ [bot_message now fallback_text],
              chat_toasts := chat_toasts s @
                [\<lparr> toast_title = ''Chat Error'',
                   toast_description = or_else (detail err) ''Failed to send message'',
                   toast_variant = Destructive \<rparr>],
              isLoading := False \<rparr>)"

text \<open>
  What can happen to a mounted panel: the parent passes a finding, the user edits the input,
  the user asks to send (at clock reading \<open>now\<close>), and the outstanding request settles.
\<close>

datatype chat_event =
    SelectFinding Finding
  | TypeInput string
  | ClickSend nat
  | RequestSettled "ApiError + ChatResponse" nat

text \<open>
  One event applied to the finding currently passed in, the panel state and the number of
  chat requests in flight. A request can only settle when one is in flight.
\<close>

fun chat_step :: "chat_event \<Rightarrow> Finding \<times> ChatPanel \<times> nat \<Rightarrow> Finding \<times> ChatPanel \<times> nat" where
  "chat_step (SelectFinding g) (f, s, n) = (g, finding_effect g s, n)"
| "chat_step (TypeInput v) (f, s, n) = (f, setInputValue v s, n)"
| "chat_step (ClickSend now) (f, s, n) =
     (f, handleSendMessage f now s,
      n + (length (chat_network (handleSendMessage f now s)) - length (chat_network s)))"
| "chat_step (RequestSettled r now) (f, s, n) =
     (if n = 0 then (f, s, n) else (f, handleSendMessage_settled r now s, n - 1))"

text \<open>A panel mounted with a finding, and a sequence of events applied to it.\<close>

definition mount :: "Finding \<Rightarrow> Finding \<times> ChatPanel \<times> nat" where
  "mount f = (f, finding_effect f initial_ChatPanel, 0)"

definition chat_run :: "chat_event list \<Rightarrow> Finding \<times> ChatPanel \<times> nat \<Rightarrow> Finding \<times> ChatPanel \<times> nat" where
  "chat_run evs c = fold chat_step evs c"

definition panel :: "Finding \<times> ChatPanel \<times> nat \<Rightarrow> ChatPanel" where
  "panel c = fst (snd c)"

definition in_flight :: "Finding \<times> ChatPanel \<times> nat \<Rightarrow> nat" where
  "in_flight c = snd (snd c)"

section \<open>Where requests go (lib/api.ts, components/PDFViewer.tsx)\<close>

text \<open>
  What the module reads from its surroundings: the build-time variable
  \<^verbatim>\<open>import.meta.env.VITE_API_URL\<close> and \<^verbatim>\<open>window.location.hostname\<close> (absent when there is
  no \<^verbatim>\<open>window\<close>).
\<close>

record environment =
  VITE_API_URL :: "string option"
  hostname :: "string option"

definition endsWith :: "string \<Rightarrow> string \<Rightarrow> bool" where
  "endsWith s suffix = (length suffix \<le> length s \<and> drop (length s - length suffix) s = suffix)"

definition inferredDefaultBaseUrl :: "environment \<Rightarrow> string" where
  "inferredDefaultBaseUrl e =
     (if (case hostname e of None \<Rightarrow> False | Some h \<Rightarrow> endsWith h ''vercel.app'')
      then ''https://raykarr-insurance-document-analyzer-api.hf.space''
      else ''http://localhost:7860'')"

definition API_BASE_URL :: "environment \<Rightarrow> string" where
  "API_BASE_URL e = or_else (VITE_API_URL e) (inferredDefaultBaseUrl e)"

text \<open>
  The path each method of \<^verbatim>\<open>apiService\<close> asks the client instance for (a \<^verbatim>\<open>fetch\<close> has
  only its own URL).
\<close>

fun api_path :: "request \<Rightarrow> string" where
  "api_path (UploadDocument file) = ''/ingest''"
| "api_path (GetAnalysisStatus d) = ''/analysis/'' @ d"
| "api_path (GetFindings d) = ''/findings/'' @ d"
| "api_path (GetFindingsByCategory d c) = ''/findings/'' @ d @ ''/category/'' @ c"
| "api_path (SendChatMessage i q) = ''/findings/'' @ string_of_int i @ ''/chat''"
| "api_path HealthCheck = ''/health''"
| "api_path (GetProgress d) = ''/progress/'' @ d"
| "api_path (FetchUrl u) = u"

text \<open>
  The URL a request is sent to. The client instance is created with
  \<^verbatim>\<open>baseURL: API_BASE_URL\<close>; the HTTP library joins base and path with one slash, after
  removing the slashes at the end of the base (at most two) and at the start of the path.
  \<^verbatim>\<open>fetch\<close> is given its whole URL.
\<close>

definition combineURLs :: "string \<Rightarrow> string \<Rightarrow> string" where
  "combineURLs baseURL relativeURL =
     (let b = (case rev baseURL of
                 CHR ''/'' # CHR ''/'' # r \<Rightarrow> rev r
               | CHR ''/'' # r \<Rightarrow> rev r
               | _ \<Rightarrow> baseURL)
      in b @ ''/'' @ dropWhile (\<lambda>c. c = CHR ''/'') relativeURL)"

fun request_url :: "environment \<Rightarrow> request \<Rightarrow> string" where
  "request_url e (FetchUrl u) = u"
| "request_url e r = combineURLs (API_BASE_URL e) (api_path r)"

text \<open>
  PDFViewer.tsx: \<^verbatim>\<open>pdfUrl\<close>, and the request its effect makes when the document id is
  truthy.
\<close>

definition pdfUrl :: "string \<Rightarrow> string" where
  "pdfUrl d = ''http://localhost:7860/documents/'' @ d @ ''/pdf#view=FitH&toolbar=1''"

definition pdfViewer_effect :: "string option \<Rightarrow> request list" where
  "pdfViewer_effect doc =
     (case doc of
        None \<Rightarrow> []
      | Some d \<Rightarrow> if truthy (Some d) then [FetchUrl (pdfUrl d)] else [])"

section \<open>Sample inputs\<close>

definition notes_txt :: File where
  "notes_txt = \<lparr> file_name = ''notes.txt'', file_type = ''text/plain'', file_size = 2048 \<rparr>"

definition big_pdf :: File where
  "big_pdf = \<lparr> file_name = ''big.pdf'', file_type = ''application/pdf'', file_size = 12582912 \<rparr>"

definition policy_pdf :: File where
  "policy_pdf = \<lparr> file_name = ''policy.pdf'', file_type = ''application/pdf'', file_size = 2097152 \<rparr>"

definition sample_ingest :: IngestResponse where
  "sample_ingest = \<lparr> ingest_document_id = ''abc123'', ingest_filename = ''policy.pdf'',
      total_pages = 12, analysis_status = ''pending'' \<rparr>"

text \<open>The page after \<^verbatim>\<open>policy.pdf\<close> was submitted and the upload succeeded.\<close>

definition uploaded :: Analysis where
  "uploaded =
     uploadMutation_settled (Inr sample_ingest) (handleFileUpload (Some policy_pdf) initial_Analysis)"

definition status_of :: "string \<Rightarrow> AnalysisStatus" where
  "status_of x = \<lparr> status_document_id = ''abc123'', status = x, findings_count = None \<rparr>"

text \<open>Requests for the findings of a document, and those among the requests made so far.\<close>

fun is_findings_request :: "request \<Rightarrow> bool" where
  "is_findings_request (GetFindings d) = True"
| "is_findings_request (GetFindingsByCategory d c) = True"
| "is_findings_request r = False"

definition findings_requests :: "Analysis \<Rightarrow> request list" where
  "findings_requests s = filter is_findings_request (network s)"

text \<open>The page of \<open>uploaded\<close> two ticks later, the analysis still running.\<close>

definition analyzing_page :: Analysis where
  "analyzing_page = poll [status_of ''pending'', status_of ''analyzing''] uploaded"

definition queued_progress :: ProgressData where
  "queued_progress = \<lparr> progress_status = ''queued'', progress = 10, progress_message = ''Queued'' \<rparr>"

definition sample_finding :: "nat \<Rightarrow> Finding" where
  "sample_finding k =
     \<lparr> finding_id = int k, category = ''EXCLUSION'', severity = ''HIGH'',
       summary = ''Flood damage is excluded.'', recommendation = None, page_num = 3,
       confidence_score = 92 / 100 \<rparr>"

text \<open>The page once the analysis completed and twenty-three findings were loaded.\<close>

definition loaded_page :: Analysis where
  "loaded_page =
     findings_response (Inr (map sample_finding [1..<24]))
       (status_response (status_of ''completed'') analyzing_page)"

definition deployed_environment :: environment where
  "deployed_environment = \<lparr> VITE_API_URL = None, hostname = Some ''insurance-analyzer.vercel.app'' \<rparr>"

text \<open>The deployment guide's example of a configured base URL.\<close>

definition configured_environment :: environment where
  "configured_environment =
     \<lparr> VITE_API_URL = Some ''https://your-app-name.vercel.app/api'',
       hostname = Some ''your-app-name.vercel.app'' \<rparr>"

definition flood_finding :: Finding where
  "flood_finding =
     \<lparr> finding_id = 1, category = ''EXCLUSION'', severity = ''HIGH'',
       summary = ''Flood damage is excluded.'', recommendation = None, page_num = 3,
       confidence_score = 92 / 100 \<rparr>"

definition deductible_finding :: Finding where
  "deductible_finding =
     \<lparr> finding_id = 2, category = ''DEDUCTIBLE'', severity = ''MEDIUM'',
       summary = ''A deductible of 500 applies per claim.'',
       recommendation = Some ''Budget for the deductible.'', page_num = 5,
       confidence_score = 81 / 100 \<rparr>"

text \<open>A panel in which one question is in flight and the next one is already typed.\<close>

definition busy_panel :: ChatPanel where
  "busy_panel =
     panel (chat_run [TypeInput ''What does this mean?'', ClickSend 1700000000000,
                      TypeInput ''Is this normal?''] (mount flood_finding))"

definition sample_error :: ApiError where
  "sample_error = \<lparr> detail = None, error_message = Some ''Network Error'' \<rparr>"

definition sample_response :: ChatResponse where
  "sample_response =
     \<lparr> answer = ''Flood damage is not covered by this policy.'', response_finding_id = 1,
       context_category = ''EXCLUSION'', context_summary = ''Flood damage is excluded.'',
       context_text_content = ''We do not cover loss caused by flood.'' \<rparr>"

text \<open>
  Two pages that continue \<open>analyzing_page\<close>: one where the analysis completed and the fetch
  of the findings then failed, and one where the refresh button was pressed during the
  analysis and its findings request was answered.
\<close>

definition failed_page :: Analysis where
  "failed_page =
     findings_response (Inl sample_error)
       (status_response (status_of ''completed'') analyzing_page)"

definition refreshed_page :: Analysis where
  "refreshed_page = findings_response (Inr [sample_finding 1]) (manual_refresh analyzing_page)"

section \<open>Properties\<close>

subsection \<open>Upload validation\<close>

text \<open>
  C1. On the analysis page, a file whose content type is not a PDF type (the code's
  test: \<^verbatim>\<open>file.type\<close> does not contain \<^verbatim>\<open>pdf\<close>) or whose size exceeds
  \<open>10 * 1024 * 1024\<close> bytes is rejected with a destructive toast that names the violated
  constraint (the type first, when both fail), and the network log is unchanged: the upload
  call is not made. A file that passes both tests causes exactly one upload request and
  no toast.
\<close>

theorem handleFileUpload_validation:
  "(\<not> str_includes (file_type f) ''pdf'' \<longrightarrow>
      network (handleFileUpload (Some f) s) = network s \<and>
      toasts (handleFileUpload (Some f) s) = toasts s @ [invalid_type_toast]) \<and>
   (str_includes (file_type f) ''pdf'' \<and> file_size f > 10 * 1024 * 1024 \<longrightarrow>
      network (handleFileUpload (Some f) s) = network s \<and>
      toasts (handleFileUpload (Some f) s) = toasts s @ [too_large_toast]) \<and>
   (str_includes (file_type f) ''pdf'' \<and> file_size f \<le> 10 * 1024 * 1024 \<longrightarrow>
      network (handleFileUpload (Some f) s) = network s @ [UploadDocument f] \<and>
      toasts (handleFileUpload (Some f) s) = toasts s)"
  by (simp add: handleFileUpload_def uploadMutation_mutate_def toast_def send_def
      addProcessStep_def Let_def)

theorem handleFileUpload_validation_witness:
  "network (handleFileUpload (Some notes_txt) initial_Analysis) = [] \<and>
   toasts (handleFileUpload (Some notes_txt) initial_Analysis) = [invalid_type_toast] \<and>
   network (handleFileUpload (Some big_pdf) initial_Analysis) = [] \<and>
   toasts (handleFileUpload (Some big_pdf) initial_Analysis) = [too_large_toast] \<and>
   network (handleFileUpload (Some policy_pdf) initial_Analysis) = [UploadDocument policy_pdf] \<and>
   toasts (handleFileUpload (Some policy_pdf) initial_Analysis) = []"
proof -
  have t: "\<not> str_includes (file_type notes_txt) ''pdf''"
    by (simp add: notes_txt_def)
  have b: "str_includes (file_type big_pdf) ''pdf'' \<and> file_size big_pdf > 10 * 1024 * 1024"
    by (simp add: big_pdf_def)
  have p: "str_includes (file_type policy_pdf) ''pdf'' \<and> file_size policy_pdf \<le> 10 * 1024 * 1024"
    by (simp add: policy_pdf_def)
  have e: "network initial_Analysis = [] \<and> toasts initial_Analysis = []"
    by (simp add: initial_Analysis_def)
  show ?thesis
    using handleFileUpload_validation [of notes_txt initial_Analysis]
      handleFileUpload_validation [of big_pdf initial_Analysis]
      handleFileUpload_validation [of policy_pdf initial_Analysis] t b p e
    by simp
qed

subsection \<open>The file slot\<close>

text \<open>
  C10. The module-level file state is a single-slot store: whatever was stored before,
  \<^verbatim>\<open>getFile()\<close> after \<^verbatim>\<open>setFile(f)\<close> returns \<open>f\<close>; \<^verbatim>\<open>getFile()\<close> after
  \<^verbatim>\<open>clearFile()\<close> returns \<^verbatim>\<open>null\<close>; and \<^verbatim>\<open>getFile()\<close> is \<^verbatim>\<open>null\<close> initially.
\<close>

theorem fileState_single_slot:
  "getFile (setFile f m) = Some f \<and> getFile (clearFile m) = None \<and> getFile initial_module = None"
  by (simp add: getFile_def setFile_def clearFile_def initial_module_def)

subsection \<open>Polling\<close>

lemma analysisState_updateProcessStep [simp]:
  "analysisState (updateProcessStep i st msg ic s) = analysisState s"
  by (simp add: updateProcessStep_def)

lemma analysisStatus_updateProcessStep [simp]:
  "analysisStatus (updateProcessStep i st msg ic s) = analysisStatus s"
  by (simp add: updateProcessStep_def)

lemma network_updateProcessStep [simp]:
  "network (updateProcessStep i st msg ic s) = network s"
  by (simp add: updateProcessStep_def)

lemma documentId_analysisStatus_effect [simp]:
  "documentId (analysisState (analysisStatus_effect s)) = documentId (analysisState s)"
  by (simp add: analysisStatus_effect_def Let_def split: option.splits)

lemma analysisStatus_analysisStatus_effect [simp]:
  "analysisStatus (analysisStatus_effect s) = analysisStatus s"
  by (simp add: analysisStatus_effect_def Let_def split: option.splits)

lemma network_analysisStatus_effect [simp]:
  "network (analysisStatus_effect s) = network s"
  by (simp add: analysisStatus_effect_def Let_def split: option.splits)

lemma analysisState_findings_query_observe [simp]:
  "analysisState (findings_query_observe w s) = analysisState s"
  by (simp add: findings_query_observe_def send_def split: option.splits)

lemma analysisStatus_findings_query_observe [simp]:
  "analysisStatus (findings_query_observe w s) = analysisStatus s"
  by (simp add: findings_query_observe_def send_def split: option.splits)

lemma documentId_status_response [simp]:
  "documentId (analysisState (status_response a s)) = documentId (analysisState s)"
  by (simp add: status_response_def)

lemma observed_status_response [simp]:
  "observed_status (status_response a s) = Some (status a)"
  by (simp add: status_response_def observed_status_def)

lemma analysisState_interval_tick [simp]:
  "analysisState (interval_tick s) = analysisState s"
  by (simp add: interval_tick_def)

lemma poll_snoc: "poll (xs @ [a]) s = status_response a (interval_tick (poll xs s))"
  by (induction xs arbitrary: s) simp_all

lemma documentId_poll [simp]:
  "documentId (analysisState (poll xs s)) = documentId (analysisState s)"
  by (induction xs arbitrary: s) simp_all

lemma tick_requests_eq:
  "documentId (analysisState s) = Some d \<Longrightarrow> d \<noteq> [] \<Longrightarrow>
   tick_requests s =
     GetAnalysisStatus d # (if observed_status s = Some ''completed'' then [] else [GetProgress d])"
  by (simp add: tick_requests_def status_query_enabled_def progress_query_enabled_def)

lemma observed_status_None: "analysisStatus s = None \<Longrightarrow> observed_status s = None"
  by (simp add: observed_status_def)

lemma uploaded_doc: "documentId (analysisState uploaded) = Some ''abc123''"
  by (simp add: uploaded_def uploadMutation_settled_def rekey_queries_def sample_ingest_def toast_def
      addProcessStep_def Let_def)

lemma uploaded_status: "analysisStatus uploaded = None"
  by (simp add: uploaded_def uploadMutation_settled_def rekey_queries_def sample_ingest_def toast_def
      addProcessStep_def Let_def updateProcessStep_def handleFileUpload_def
      uploadMutation_mutate_def send_def initial_Analysis_def policy_pdf_def)

text \<open>
  C2, as the claim states it, fails: the status query has no gate on the status, so after
  \<^verbatim>\<open>completed\<close> was observed the next tick still puts a status request on the network,
  and so do the ticks after it.
\<close>

theorem polling_continues_after_completed:
  "tick_requests
     (poll [status_of ''pending'', status_of ''analyzing'', status_of ''completed''] uploaded)
   = [GetAnalysisStatus ''abc123''] \<and>
   tick_requests
     (poll [status_of ''pending'', status_of ''analyzing'', status_of ''completed'',
            status_of ''completed''] uploaded)
   = [GetAnalysisStatus ''abc123''] \<and>
   tick_requests
     (poll [status_of ''pending'', status_of ''analyzing'', status_of ''completed'',
            status_of ''completed'', status_of ''completed''] uploaded)
   = [GetAnalysisStatus ''abc123'']"
  by (simp add: uploaded_doc status_of_def
      tick_requests_def status_query_enabled_def progress_query_enabled_def)

text \<open>
  After \<^verbatim>\<open>failed\<close> the gate of the progress query, which names \<^verbatim>\<open>completed\<close> only, stays
  open: both requests still go out.
\<close>

lemma polling_after_failed:
  "tick_requests (poll [status_of ''pending'', status_of ''failed''] uploaded)
   = [GetAnalysisStatus ''abc123'', GetProgress ''abc123'']"
  by (simp add: poll_snoc [of "[x]" for x, simplified] uploaded_doc status_of_def
      tick_requests_def status_query_enabled_def progress_query_enabled_def)

text \<open>
  C2, amended. With a document id set, every tick of every run of the poller issues the
  status request first, whatever statuses were observed, terminal ones included; besides
  it a tick issues at most the progress request. The progress request is issued before
  any status is known and while the last observed status is neither \<^verbatim>\<open>completed\<close> nor
  \<^verbatim>\<open>failed\<close>; once the last observed status is \<^verbatim>\<open>completed\<close>, a tick issues the status
  request alone.
\<close>

theorem poller_progress_gate:
  assumes "documentId (analysisState s) = Some d" and "d \<noteq> []"
  shows "take 1 (tick_requests (poll xs s)) = [GetAnalysisStatus d] \<and>
         (drop 1 (tick_requests (poll xs s)) = [] \<or>
          drop 1 (tick_requests (poll xs s)) = [GetProgress d]) \<and>
         (analysisStatus s = None \<longrightarrow> tick_requests s = [GetAnalysisStatus d, GetProgress d]) \<and>
         (status a \<noteq> ''completed'' \<and> status a \<noteq> ''failed'' \<longrightarrow>
            tick_requests (poll (pre @ [a]) s) = [GetAnalysisStatus d, GetProgress d]) \<and>
         (status a = ''completed'' \<longrightarrow> tick_requests (poll (pre @ [a]) s) = [GetAnalysisStatus d])"
proof -
  have any: "documentId (analysisState (poll xs s)) = Some d"
    using assms(1) by simp
  have doc: "documentId (analysisState (poll (pre @ [a]) s)) = Some d"
    using assms(1) by simp
  have obs: "observed_status (poll (pre @ [a]) s) = Some (status a)"
    by (simp add: poll_snoc)
  have first: "take 1 (tick_requests (poll xs s)) = [GetAnalysisStatus d] \<and>
               (drop 1 (tick_requests (poll xs s)) = [] \<or>
                drop 1 (tick_requests (poll xs s)) = [GetProgress d])"
    by (simp add: tick_requests_eq [OF any assms(2)])
  have rest: "(analysisStatus s = None \<longrightarrow> tick_requests s = [GetAnalysisStatus d, GetProgress d]) \<and>
         (status a \<noteq> ''completed'' \<and> status a \<noteq> ''failed'' \<longrightarrow>
            tick_requests (poll (pre @ [a]) s) = [GetAnalysisStatus d, GetProgress d]) \<and>
         (status a = ''completed'' \<longrightarrow> tick_requests (poll (pre @ [a]) s) = [GetAnalysisStatus d])"
    using tick_requests_eq [OF assms] tick_requests_eq [OF doc assms(2)] obs
    by (simp add: observed_status_None)
  from first rest show ?thesis
    by blast
qed

theorem poller_progress_gate_witness:
  "tick_requests uploaded = [GetAnalysisStatus ''abc123'', GetProgress ''abc123''] \<and>
   tick_requests (poll [status_of ''pending'', status_of ''analyzing''] uploaded) =
     [GetAnalysisStatus ''abc123'', GetProgress ''abc123''] \<and>
   tick_requests
     (poll [status_of ''pending'', status_of ''analyzing'', status_of ''completed''] uploaded) =
     [GetAnalysisStatus ''abc123''] \<and>
   take 1 (tick_requests (poll [status_of ''pending'', status_of ''failed''] uploaded)) =
     [GetAnalysisStatus ''abc123''] \<and>
   take 1 (tick_requests
     (poll [status_of ''pending'', status_of ''completed'', status_of ''completed''] uploaded)) =
     [GetAnalysisStatus ''abc123'']"
  using poller_progress_gate [OF uploaded_doc, of "[status_of ''pending'', status_of ''failed'']"
      "status_of ''analyzing''" "[status_of ''pending'']"]
    poller_progress_gate [OF uploaded_doc,
      of "[status_of ''pending'', status_of ''completed'', status_of ''completed'']"
      "status_of ''completed''" "[status_of ''pending'', status_of ''analyzing'']"] uploaded_status
  by (simp add: status_of_def)

subsection \<open>The findings query\<close>

lemma analyzing_page_doc: "documentId (analysisState analyzing_page) = Some ''abc123''"
  by (simp add: analyzing_page_def uploaded_doc)

lemma analyzing_page_status: "observed_status analyzing_page = Some ''analyzing''"
  by (simp add: analyzing_page_def poll_snoc [of "[x]" for x, simplified] status_of_def)

lemma findingsData_status_response:
  "status a \<noteq> ''completed'' \<Longrightarrow>
   findingsData (status_response a s) = findingsData s \<and>
   findingsFetching (status_response a s) = findingsFetching s \<and>
   network (status_response a s) = network s"
  by (simp add: status_response_def findings_query_observe_def findings_query_enabled_def
      observed_status_def analysisStatus_effect_def updateProcessStep_def Let_def
      split: option.splits)

lemma policy_pdf_passes:
  "str_includes (file_type policy_pdf) ''pdf'' \<and> \<not> 10485760 < file_size policy_pdf"
  by (simp add: policy_pdf_def)

lemma uploaded_fresh:
  "findingsData uploaded = None \<and> \<not> findingsFetching uploaded \<and>
   network uploaded = [UploadDocument policy_pdf]"
  by (simp add: uploaded_def uploadMutation_settled_def rekey_queries_def sample_ingest_def toast_def
      addProcessStep_def Let_def updateProcessStep_def handleFileUpload_def
      uploadMutation_mutate_def send_def initial_Analysis_def policy_pdf_passes)

lemma analyzing_page_fresh:
  "findingsData analyzing_page = None \<and> \<not> findingsFetching analyzing_page \<and>
   network analyzing_page =
     [UploadDocument policy_pdf, GetAnalysisStatus ''abc123'', GetProgress ''abc123'',
      GetAnalysisStatus ''abc123'', GetProgress ''abc123'']"
  using uploaded_fresh uploaded_status
  by (simp add: analyzing_page_def findingsData_status_response status_of_def
      interval_tick_def tick_requests_eq [OF uploaded_doc] observed_status_None
      tick_requests_def status_query_enabled_def progress_query_enabled_def uploaded_doc)


text \<open>
  C3, as the claim states it, fails: the refresh button calls \<^verbatim>\<open>refetchFindings()\<close>
  whenever a document id is set, so a findings request goes out while the observed status
  is still \<^verbatim>\<open>analyzing\<close>.
\<close>

theorem manual_refresh_fetches_findings_while_analyzing:
  "observed_status analyzing_page = Some ''analyzing'' \<and>
   network (manual_refresh analyzing_page) =
     network analyzing_page @ [GetAnalysisStatus ''abc123'', GetFindings ''abc123'']"
  by (simp add: analyzing_page_status manual_refresh_def analyzing_page_doc send_def Let_def
      analyzing_page_fresh)

lemma findings_requests_tick:
  "findings_requests (interval_tick s) = findings_requests s"
  by (simp add: findings_requests_def interval_tick_def tick_requests_def split: option.splits)

lemma findings_requests_progress_response:
  "findings_requests (progress_response p s) = findings_requests s"
  by (simp add: findings_requests_def progress_response_def progressData_effect_def Let_def)

lemma findings_requests_status_response:
  "\<not> truthy (documentId (analysisState s)) \<or> status a \<noteq> ''completed'' \<Longrightarrow>
   findings_requests (status_response a s) = findings_requests s"
  by (auto simp add: findings_requests_def status_response_def findings_query_observe_def
      findings_query_enabled_def observed_status_def send_def split: option.splits)

lemma network_status_response_first_completed:
  "documentId (analysisState s) = Some d \<Longrightarrow> d \<noteq> [] \<Longrightarrow> status a = ''completed'' \<Longrightarrow>
   observed_status s \<noteq> Some ''completed'' \<Longrightarrow> \<not> findingsFetching s \<Longrightarrow>
   network (status_response a s) = network s @ [GetFindings d]"
  by (auto simp add: status_response_def findings_query_observe_def
      findings_query_enabled_def observed_status_def send_def analysisStatus_effect_def
      updateProcessStep_def Let_def)

lemma network_status_response_no_refetch:
  "observed_status s = Some ''completed'' \<or> findingsFetching s \<Longrightarrow>
   network (status_response a s) = network s"
  by (auto simp add: status_response_def findings_query_observe_def
      findings_query_enabled_def observed_status_def send_def analysisStatus_effect_def
      updateProcessStep_def Let_def split: option.splits)

lemma manual_refresh_network:
  "(\<not> truthy (documentId (analysisState s)) \<longrightarrow> network (manual_refresh s) = network s) \<and>
   (documentId (analysisState s) = Some d \<and> d \<noteq> [] \<and>
    \<not> (findingsFetching s \<and> findingsData s = None) \<longrightarrow>
      network (manual_refresh s) = network s @ [GetAnalysisStatus d, GetFindings d]) \<and>
   (documentId (analysisState s) = Some d \<and> d \<noteq> [] \<and>
    findingsFetching s \<and> findingsData s = None \<longrightarrow>
      network (manual_refresh s) = network s @ [GetAnalysisStatus d])"
  by (auto simp add: manual_refresh_def send_def Let_def split: option.splits)

text \<open>
  C3, amended. The page fetches the findings by itself only when a document id is set and
  the observed status equals \<^verbatim>\<open>completed\<close>: a polling tick and a progress response never
  issue a findings request, and a status response issues none when there is no document id
  or its status is not \<^verbatim>\<open>completed\<close>. The status response that turns the observed status
  into \<^verbatim>\<open>completed\<close> issues exactly one findings request, unless a fetch of the findings is
  in flight; a status response that finds the observed status \<^verbatim>\<open>completed\<close> already, or a
  fetch in flight, issues no request, also after a failed fetch. The refresh button does
  nothing without a document id; with one it issues a status request and, whatever the
  status, a findings request, except that it joins a first fetch of the findings that is
  still in flight. An empty findings list is a valid result: no error is recorded, no
  step and no toast is added, and the list shown is empty.
\<close>

theorem findings_fetch_gate:
  "findings_requests (interval_tick s) = findings_requests s \<and>
   findings_requests (progress_response p s) = findings_requests s \<and>
   (\<not> truthy (documentId (analysisState s)) \<or> status a \<noteq> ''completed'' \<longrightarrow>
      findings_requests (status_response a s) = findings_requests s) \<and>
   (documentId (analysisState s) = Some d \<and> d \<noteq> [] \<and> status a = ''completed'' \<and>
    observed_status s \<noteq> Some ''completed'' \<and> \<not> findingsFetching s \<longrightarrow>
      network (status_response a s) = network s @ [GetFindings d]) \<and>
   (observed_status s = Some ''completed'' \<or> findingsFetching s \<longrightarrow>
      network (status_response a s) = network s) \<and>
   (\<not> truthy (documentId (analysisState s)) \<longrightarrow> network (manual_refresh s) = network s) \<and>
   (documentId (analysisState s) = Some d \<and> d \<noteq> [] \<and>
    \<not> (findingsFetching s \<and> findingsData s = None) \<longrightarrow>
      network (manual_refresh s) = network s @ [GetAnalysisStatus d, GetFindings d]) \<and>
   (documentId (analysisState s) = Some d \<and> d \<noteq> [] \<and>
    findingsFetching s \<and> findingsData s = None \<longrightarrow>
      network (manual_refresh s) = network s @ [GetAnalysisStatus d]) \<and>
   findingsError (findings_response (Inr []) s) = None \<and>
   findings (findings_response (Inr []) s) = [] \<and>
   processSteps (findings_response (Inr []) s) = processSteps s \<and>
   toasts (findings_response (Inr []) s) = toasts s"
proof -
  have e: "findingsError (findings_response (Inr []) s) = None \<and>
           findings (findings_response (Inr []) s) = [] \<and>
           processSteps (findings_response (Inr []) s) = processSteps s \<and>
           toasts (findings_response (Inr []) s) = toasts s"
    by (simp add: findings_response_def findings_def)
  show ?thesis
    using findings_requests_status_response [of s a]
      network_status_response_first_completed [of s d a]
      network_status_response_no_refetch [of s a]
      manual_refresh_network [of s d] e
    by (simp only: findings_requests_tick findings_requests_progress_response) blast
qed

lemma initial_no_document: "documentId (analysisState initial_Analysis) = None"
  by (simp add: initial_Analysis_def)

lemma findings_response_keeps:
  "documentId (analysisState (findings_response r s)) = documentId (analysisState s) \<and>
   observed_status (findings_response r s) = observed_status s \<and>
   network (findings_response r s) = network s \<and>
   \<not> findingsFetching (findings_response r s)"
  by (simp add: findings_response_def addProcessStep_def observed_status_def Let_def
      split: sum.splits)

lemma manual_refresh_keeps:
  "documentId (analysisState (manual_refresh s)) = documentId (analysisState s) \<and>
   observed_status (manual_refresh s) = observed_status s"
  by (simp add: manual_refresh_def send_def observed_status_def Let_def split: option.splits)

lemma failed_page_state:
  "documentId (analysisState failed_page) = Some ''abc123'' \<and>
   observed_status failed_page = Some ''completed'' \<and>
   findingsData failed_page = None \<and> \<not> findingsFetching failed_page \<and>
   network failed_page = network analyzing_page @ [GetFindings ''abc123'']"
  using network_status_response_first_completed
      [of analyzing_page "''abc123''" "status_of ''completed''"]
    analyzing_page_doc analyzing_page_status analyzing_page_fresh
  by (simp add: failed_page_def findings_response_keeps status_of_def)
    (simp add: findings_response_def addProcessStep_def status_response_def
      findings_query_observe_def send_def analysisStatus_effect_def updateProcessStep_def
      Let_def)

lemma refreshed_page_state:
  "documentId (analysisState refreshed_page) = Some ''abc123'' \<and>
   observed_status refreshed_page = Some ''analyzing'' \<and>
   \<not> findingsFetching refreshed_page \<and>
   findingsData refreshed_page = Some [sample_finding 1] \<and>
   network refreshed_page =
     network analyzing_page @ [GetAnalysisStatus ''abc123'', GetFindings ''abc123'']"
  using manual_refresh_network [of analyzing_page "''abc123''"]
    analyzing_page_doc analyzing_page_status analyzing_page_fresh
  by (simp add: refreshed_page_def findings_response_keeps manual_refresh_keeps)
    (simp add: findings_response_def addProcessStep_def Let_def)

theorem findings_fetch_gate_witness:
  "findings_requests (status_response (status_of ''analyzing'') analyzing_page) = [] \<and>
   network (status_response (status_of ''completed'') analyzing_page) =
     network analyzing_page @ [GetFindings ''abc123''] \<and>
   network (status_response (status_of ''completed'') failed_page) = network failed_page \<and>
   network (status_response (status_of ''completed'') refreshed_page) =
     network refreshed_page @ [GetFindings ''abc123''] \<and>
   network (manual_refresh initial_Analysis) = [] \<and>
   network (manual_refresh analyzing_page) =
     network analyzing_page @ [GetAnalysisStatus ''abc123'', GetFindings ''abc123''] \<and>
   network (manual_refresh (manual_refresh analyzing_page)) =
     network analyzing_page @
       [GetAnalysisStatus ''abc123'', GetFindings ''abc123'', GetAnalysisStatus ''abc123''] \<and>
   findingsError (findings_response (Inr []) analyzing_page) = None \<and>
   findings (findings_response (Inr []) analyzing_page) = []"
proof -
  have n: "findings_requests analyzing_page = []"
    by (simp add: findings_requests_def analyzing_page_fresh)
  have i: "network initial_Analysis = []"
    by (simp add: initial_Analysis_def)
  have r: "documentId (analysisState (manual_refresh analyzing_page)) = Some ''abc123'' \<and>
           findingsFetching (manual_refresh analyzing_page) \<and>
           findingsData (manual_refresh analyzing_page) = None \<and>
           network (manual_refresh analyzing_page) =
             network analyzing_page @ [GetAnalysisStatus ''abc123'', GetFindings ''abc123'']"
    using analyzing_page_doc analyzing_page_fresh
    by (simp add: manual_refresh_def send_def Let_def)
  show ?thesis
    using findings_fetch_gate [of analyzing_page _ "status_of ''analyzing''" "''abc123''"]
      findings_fetch_gate [of analyzing_page _ "status_of ''completed''" "''abc123''"]
      findings_fetch_gate [of failed_page _ "status_of ''completed''" "''abc123''"]
      findings_fetch_gate [of refreshed_page _ "status_of ''completed''" "''abc123''"]
      findings_fetch_gate [of initial_Analysis _ "status_of ''completed''" "''abc123''"]
      findings_fetch_gate [of "manual_refresh analyzing_page" _ "status_of ''completed''" "''abc123''"]
      analyzing_page_doc analyzing_page_fresh analyzing_page_status initial_no_document n i
      failed_page_state refreshed_page_state r
    by (simp add: status_of_def)
qed

subsection \<open>Status strings\<close>

lemma processSteps_findings_query_observe [simp]:
  "processSteps (findings_query_observe w s) = processSteps s"
  by (simp add: findings_query_observe_def send_def split: option.splits)

lemma status_effect_unrecognized:
  "analysisStatus s = Some a \<Longrightarrow> status a \<noteq> ''completed'' \<Longrightarrow> status a \<noteq> ''failed'' \<Longrightarrow>
   analysisStatus_effect s = s"
  by (simp add: analysisStatus_effect_def)

lemma status_effect_terminal:
  "analysisStatus s = Some a \<Longrightarrow> status a = ''completed'' \<or> status a = ''failed'' \<Longrightarrow>
   \<not> isAnalyzing (analysisState (analysisStatus_effect s))"
  by (auto simp add: analysisStatus_effect_def Let_def)

lemma progress_effect_unrecognized:
  "progressData s = Some p \<Longrightarrow> progress_status p \<notin> {''pending'', ''analyzing'', ''completed'', ''failed''} \<Longrightarrow>
   progressData_effect s = s \<lparr> analysisProgress := progress p \<rparr>"
  by (simp add: progressData_effect_def Let_def)

lemma progress_effect_analysisState [simp]:
  "analysisState (progressData_effect s) = analysisState s"
  by (simp add: progressData_effect_def Let_def split: option.splits)

text \<open>
  C8. The status strings are compared by exact equality. For a status string outside
  \<^verbatim>\<open>pending\<close>, \<^verbatim>\<open>analyzing\<close>, \<^verbatim>\<open>completed\<close>, \<^verbatim>\<open>failed\<close>: the effect on the status data
  leaves the state as it is, so the analyzing flag keeps its value and no step changes;
  the effect on the progress data changes neither the flag nor any step (it only copies
  the progress number). So the page enters neither the completed nor the failed phase,
  which only new status data with exactly \<^verbatim>\<open>completed\<close> or \<^verbatim>\<open>failed\<close> brings about by
  clearing the flag.
\<close>

theorem unrecognized_status_keeps_analyzing:
  assumes "st \<notin> {''pending'', ''analyzing'', ''completed'', ''failed''}"
  shows "(status a = st \<longrightarrow>
            analysisStatus_effect (s \<lparr> analysisStatus := Some a \<rparr>) = s \<lparr> analysisStatus := Some a \<rparr> \<and>
            isAnalyzing (analysisState (status_response a s)) = isAnalyzing (analysisState s) \<and>
            processSteps (status_response a s) = processSteps s) \<and>
         (progress_status p = st \<longrightarrow>
            isAnalyzing (analysisState (progress_response p s)) = isAnalyzing (analysisState s) \<and>
            processSteps (progress_response p s) = processSteps s) \<and>
         (analysisStatus s \<noteq> Some b \<and> (status b = ''completed'' \<or> status b = ''failed'') \<longrightarrow>
            \<not> isAnalyzing (analysisState (status_response b s)))"
proof -
  have 1: "status a = st \<Longrightarrow>
      analysisStatus_effect (s \<lparr> analysisStatus := Some a \<rparr>) = s \<lparr> analysisStatus := Some a \<rparr>"
    using assms by (intro status_effect_unrecognized [of _ a]) auto
  have 2: "progress_status p = st \<Longrightarrow>
      progressData_effect (s \<lparr> progressData := Some p \<rparr>)
        = s \<lparr> progressData := Some p, analysisProgress := progress p \<rparr>"
    using assms progress_effect_unrecognized [of "s \<lparr> progressData := Some p \<rparr>" p] by simp
  have 3: "analysisStatus s \<noteq> Some b \<Longrightarrow> status b = ''completed'' \<or> status b = ''failed'' \<Longrightarrow>
      \<not> isAnalyzing (analysisState (status_response b s))"
    using status_effect_terminal [of "s \<lparr> analysisStatus := Some b \<rparr>" b]
    by (simp add: status_response_def)
  show ?thesis
    using 1 2 3 by (simp add: status_response_def progress_response_def)
qed

lemma isAnalyzing_uploaded: "isAnalyzing (analysisState uploaded)"
  by (simp add: uploaded_def uploadMutation_settled_def rekey_queries_def toast_def addProcessStep_def Let_def)

lemma isAnalyzing_status_response:
  "status a \<noteq> ''completed'' \<Longrightarrow> status a \<noteq> ''failed'' \<Longrightarrow>
   isAnalyzing (analysisState (status_response a s)) = isAnalyzing (analysisState s)"
  by (simp add: status_response_def status_effect_unrecognized)

lemma isAnalyzing_analyzing_page: "isAnalyzing (analysisState analyzing_page)"
  by (simp add: analyzing_page_def isAnalyzing_status_response status_of_def isAnalyzing_uploaded)

lemma analyzing_page_not_completed:
  "analysisStatus analyzing_page \<noteq> Some (status_of ''completed'')"
  using analyzing_page_status by (auto simp add: observed_status_def status_of_def)

theorem unrecognized_status_keeps_analyzing_witness:
  "isAnalyzing (analysisState (status_response (status_of ''Completed'') analyzing_page)) \<and>
   processSteps (status_response (status_of ''Completed'') analyzing_page) = processSteps analyzing_page \<and>
   isAnalyzing (analysisState (progress_response queued_progress analyzing_page)) \<and>
   \<not> isAnalyzing (analysisState (status_response (status_of ''completed'') analyzing_page))"
  using unrecognized_status_keeps_analyzing [of "''Completed''" "status_of ''Completed''"
      analyzing_page _ "status_of ''completed''"]
    unrecognized_status_keeps_analyzing [of "''queued''" _ analyzing_page queued_progress]
    isAnalyzing_analyzing_page analyzing_page_not_completed
  by (simp add: status_of_def queued_progress_def)

subsection \<open>Pagination\<close>

lemma ceiling_tenth: "\<lceil>rat_of_nat n / rat_of_int 10\<rceil> = int ((n + 9) div 10)"
proof -
  have "\<lceil>rat_of_nat n / rat_of_int 10\<rceil> = \<lceil>rat_of_int (int n) / rat_of_int 10\<rceil>"
    by simp
  also have "\<dots> = - (- int n div 10)"
    by (rule ceiling_divide_eq_div)
  also have "\<dots> = int ((n + 9) div 10)"
    by (simp add: zdiv_int)
  finally show ?thesis .
qed

lemma totalPages_eq: "totalPages s = int ((length (filteredFindings s) + 9) div 10)"
  by (simp only: totalPages_def itemsPerPage_def ceiling_tenth)

lemma js_slice_page:
  "0 \<le> i \<Longrightarrow> js_slice xs (i * 10) (i * 10 + 10) = take 10 (drop (nat i * 10) xs)"
  by (auto simp add: js_slice_def Let_def min_def nat_mult_distrib)

lemma paginatedFindings_eq:
  "1 \<le> currentPage s \<Longrightarrow>
   paginatedFindings s = take 10 (drop (nat (currentPage s - 1) * 10) (filteredFindings s))"
  using js_slice_page [of "currentPage s - 1" "filteredFindings s"]
  by (simp add: paginatedFindings_def startIndex_def endIndex_def itemsPerPage_def)

lemma page_length_a: "i + 1 < (N + 9) div 10 \<Longrightarrow> min 10 (N - i * 10) = (10::nat)"
  by (simp add: min_def)
lemma page_length_c: "(N + 9) div 10 \<le> i \<Longrightarrow> N \<le> i * (10::nat)"
  by linarith
lemma page_length_b:
  "i + 1 = (N + 9) div 10 \<Longrightarrow>
   min 10 (N - i * 10) = (if N mod 10 = 0 then 10 else N mod (10::nat))"
proof -
  assume h: "i + 1 = (N + 9) div 10"
  obtain q r where N: "N = 10 * q + r" and r: "r < 10"
    by (metis mod_less_divisor mult_div_mod_eq zero_less_numeral)
  show ?thesis
  proof (cases "r = 0")
    case True
    with h N have "i + 1 = q" by simp
    with N True show ?thesis by auto
  next
    case False
    with h N r have "i = q" by simp
    with N r False show ?thesis by simp
  qed
qed

lemma currentPage_handlers:
  "1 \<le> currentPage s \<Longrightarrow>
   1 \<le> currentPage (previousPage s) \<and> 1 \<le> currentPage (nextPage s) \<and>
   1 \<le> currentPage (selectCategory c s)"
  by (simp add: previousPage_def nextPage_def selectCategory_def)

text \<open>
  C4. Pagination is a function of the loaded, filtered list alone. With \<open>N\<close> filtered
  findings and a page size of ten, the page count is \<open>N / 10\<close> rounded up; the page shown
  for page number \<open>currentPage \<ge> 1\<close> (page index \<open>currentPage - 1\<close>) is the slice of ten
  items from offset \<open>10 * (currentPage - 1)\<close>, clipped to the list; every page before the
  last has ten items, the last page has \<open>N mod 10\<close> items, or ten when ten divides \<open>N\<close>;
  and a page index at or beyond the page count gives the empty list.
\<close>

theorem pagination_view:
  assumes "1 \<le> currentPage s"
  shows "totalPages s = int ((length (filteredFindings s) + 9) div 10) \<and>
         paginatedFindings s = take 10 (drop (nat (currentPage s - 1) * 10) (filteredFindings s)) \<and>
         (currentPage s < totalPages s \<longrightarrow> length (paginatedFindings s) = 10) \<and>
         (currentPage s = totalPages s \<longrightarrow>
            length (paginatedFindings s) =
              (if length (filteredFindings s) mod 10 = 0 then 10
               else length (filteredFindings s) mod 10)) \<and>
         (totalPages s \<le> currentPage s - 1 \<longrightarrow> paginatedFindings s = [])"
proof -
  define N where "N = length (filteredFindings s)"
  define i where "i = nat (currentPage s - 1)"
  have c: "currentPage s = int i + 1"
    using assms by (simp add: i_def)
  have t: "totalPages s = int ((N + 9) div 10)"
    by (simp only: totalPages_eq N_def)
  have p: "paginatedFindings s = take 10 (drop (i * 10) (filteredFindings s))"
    using paginatedFindings_eq [OF assms] by (simp add: i_def)
  have l: "length (paginatedFindings s) = min 10 (N - i * 10)"
    by (simp add: p N_def min.commute)
  have a: "currentPage s < totalPages s \<Longrightarrow> length (paginatedFindings s) = 10"
    unfolding l c t by (rule page_length_a) linarith
  have b: "currentPage s = totalPages s \<Longrightarrow>
           length (paginatedFindings s) = (if N mod 10 = 0 then 10 else N mod 10)"
    unfolding l c t by (rule page_length_b) linarith
  have e: "totalPages s \<le> currentPage s - 1 \<Longrightarrow> paginatedFindings s = []"
    unfolding p c t using page_length_c [of N i] by (simp add: N_def)
  show ?thesis
    using a b e t p by (simp add: N_def i_def)
qed


lemma view_status_response:
  "selectedCategory (status_response a s) = selectedCategory s \<and>
   currentPage (status_response a s) = currentPage s"
  by (simp add: status_response_def findings_query_observe_def analysisStatus_effect_def
      updateProcessStep_def send_def Let_def split: option.splits)

lemma view_poll:
  "selectedCategory (poll xs s) = selectedCategory s \<and> currentPage (poll xs s) = currentPage s"
  by (induction xs arbitrary: s) (simp_all add: view_status_response interval_tick_def)

lemma view_findings_response:
  "selectedCategory (findings_response r s) = selectedCategory s \<and>
   currentPage (findings_response r s) = currentPage s"
  by (simp add: findings_response_def addProcessStep_def Let_def split: sum.splits)

lemma view_uploaded: "selectedCategory uploaded = ''all'' \<and> currentPage uploaded = 1"
  by (simp add: uploaded_def uploadMutation_settled_def rekey_queries_def sample_ingest_def toast_def
      addProcessStep_def Let_def updateProcessStep_def handleFileUpload_def
      uploadMutation_mutate_def send_def initial_Analysis_def policy_pdf_passes)

lemma findings_findings_response: "findings (findings_response (Inr fs) s) = fs"
  by (simp add: findings_response_def findings_def addProcessStep_def Let_def)

lemma view_analyzing_page:
  "selectedCategory analyzing_page = ''all'' \<and> currentPage analyzing_page = 1"
  by (simp only: analyzing_page_def view_poll view_uploaded)

lemma loaded_page_view:
  "findings loaded_page = map sample_finding [1..<24] \<and>
   selectedCategory loaded_page = ''all'' \<and> currentPage loaded_page = 1"
  by (simp only: loaded_page_def findings_findings_response view_findings_response
      view_status_response view_analyzing_page)

lemma filteredFindings_loaded_page: "filteredFindings loaded_page = map sample_finding [1..<24]"
  by (simp add: filteredFindings_def loaded_page_view)

lemma filteredFindings_currentPage [simp]:
  "filteredFindings (s \<lparr> currentPage := k \<rparr>) = filteredFindings s"
  by (simp add: filteredFindings_def findings_def)

lemma loaded_page_total: "totalPages loaded_page = 3"
  by (simp add: totalPages_eq filteredFindings_loaded_page)

lemma totalPages_currentPage [simp]: "totalPages (s \<lparr> currentPage := k \<rparr>) = totalPages s"
  by (simp add: totalPages_eq)

lemma third_page: "nextPage (nextPage loaded_page) = loaded_page \<lparr> currentPage := 3 \<rparr>"
  by (simp add: nextPage_def loaded_page_total loaded_page_view)

theorem pagination_view_witness:
  "totalPages loaded_page = 3 \<and>
   length (paginatedFindings loaded_page) = 10 \<and>
   length (paginatedFindings (nextPage (nextPage loaded_page))) = 3 \<and>
   paginatedFindings (loaded_page \<lparr> currentPage := 4 \<rparr>) = []"
  using pagination_view [of loaded_page]
    pagination_view [of "loaded_page \<lparr> currentPage := 3 \<rparr>"]
    pagination_view [of "loaded_page \<lparr> currentPage := 4 \<rparr>"]
  by (simp add: third_page filteredFindings_loaded_page loaded_page_view)

subsection \<open>Chat\<close>

lemma not_blank_question: "\<not> blank ''What does this mean?''"
  by (simp add: blank_def is_js_space_def)

text \<open>
  C5. Let \<open>A\<close> and \<open>B\<close> be findings with different ids, in a panel that is not busy and
  not yet bound to \<open>A\<close> (a freshly mounted panel, for one). Selecting \<open>A\<close>, then \<open>B\<close>, then
  sending a non-blank question \<open>q\<close> leaves the transcript as it was, followed by the
  context message of \<open>A\<close>, the context message of \<open>B\<close> and the question, in this order;
  and the one chat request made carries the id of \<open>B\<close>.
\<close>

theorem chat_switch_keeps_context:
  assumes "finding_id A \<noteq> finding_id B" and "currentFindingId s \<noteq> Some (finding_id A)"
    and "\<not> isLoading s" and "\<not> blank q"
  shows "messages (handleSendMessage B now (setInputValue q (finding_effect B (finding_effect A s)))) =
           messages s @ [context_message A, context_message B, user_message now q] \<and>
         chat_network (handleSendMessage B now (setInputValue q (finding_effect B (finding_effect A s)))) =
           chat_network s @ [SendChatMessage (finding_id B) q]"
  using assms by (auto simp add: handleSendMessage_def setInputValue_def finding_effect_def)

theorem chat_switch_keeps_context_witness:
  "messages (handleSendMessage deductible_finding 1700000000000
      (setInputValue ''What does this mean?''
        (finding_effect deductible_finding (finding_effect flood_finding initial_ChatPanel)))) =
     [context_message flood_finding, context_message deductible_finding,
      user_message 1700000000000 ''What does this mean?''] \<and>
   chat_network (handleSendMessage deductible_finding 1700000000000
      (setInputValue ''What does this mean?''
        (finding_effect deductible_finding (finding_effect flood_finding initial_ChatPanel)))) =
     [SendChatMessage 2 ''What does this mean?'']"
proof -
  have a: "finding_id flood_finding \<noteq> finding_id deductible_finding"
    by (simp add: flood_finding_def deductible_finding_def)
  have b: "currentFindingId initial_ChatPanel \<noteq> Some (finding_id flood_finding)"
    by (simp add: initial_ChatPanel_def)
  have c: "\<not> isLoading initial_ChatPanel"
    by (simp add: initial_ChatPanel_def)
  have d: "finding_id deductible_finding = 2"
    by (simp add: deductible_finding_def)
  have e: "messages initial_ChatPanel = [] \<and> chat_network initial_ChatPanel = []"
    by (simp add: initial_ChatPanel_def)
  show ?thesis
    using chat_switch_keeps_context [OF a b c not_blank_question, of 1700000000000] d e
    by simp
qed


lemma isLoading_finding_effect [simp]: "isLoading (finding_effect g s) = isLoading s"
  by (simp add: finding_effect_def)

lemma chat_step_invariant:
  assumes "n = (if isLoading s then 1 else 0)" and "chat_step ev (f, s, n) = (f', s', n')"
  shows "n' = (if isLoading s' then 1 else 0)"
proof (cases ev)
  case (SelectFinding g)
  with assms show ?thesis by auto
next
  case (TypeInput v)
  with assms show ?thesis by (auto simp add: setInputValue_def)
next
  case (ClickSend now)
  with assms show ?thesis by (auto simp add: handleSendMessage_def split: if_splits)
next
  case (RequestSettled r now)
  with assms show ?thesis
    by (auto simp add: handleSendMessage_settled_def split: if_splits sum.splits)
qed

lemma chat_run_invariant:
  "in_flight c = (if isLoading (panel c) then 1 else 0) \<Longrightarrow>
   in_flight (chat_run evs c) = (if isLoading (panel (chat_run evs c)) then 1 else 0)"
proof (induction evs arbitrary: c)
  case Nil
  then show ?case by (simp add: chat_run_def)
next
  case (Cons ev evs)
  obtain f s n where c: "c = (f, s, n)"
    by (cases c) auto
  obtain f' s' n' where st: "chat_step ev (f, s, n) = (f', s', n')"
    by (cases "chat_step ev (f, s, n)") auto
  have "n = (if isLoading s then 1 else 0)"
    using Cons.prems c by (simp add: in_flight_def panel_def)
  then have "n' = (if isLoading s' then 1 else 0)"
    using st by (rule chat_step_invariant)
  then have "in_flight (f', s', n') = (if isLoading (panel (f', s', n')) then 1 else 0)"
    by (simp add: in_flight_def panel_def)
  then have "in_flight (chat_run evs (f', s', n'))
      = (if isLoading (panel (chat_run evs (f', s', n'))) then 1 else 0)"
    by (rule Cons.IH)
  then show ?case
    using c st by (simp add: chat_run_def)
qed

lemma mount_invariant: "in_flight (mount g) = (if isLoading (panel (mount g)) then 1 else 0)"
  by (simp add: mount_def in_flight_def panel_def initial_ChatPanel_def)

text \<open>
  C6. While the busy flag is set, \<^verbatim>\<open>handleSendMessage\<close> returns the state it was given:
  no request, no message, the input and everything else unchanged; nothing is queued.
  Along every sequence of events of a mounted panel at most one chat request is in flight,
  and one is in flight exactly while the busy flag is set.
\<close>

theorem send_while_busy_is_noop:
  "(isLoading s \<longrightarrow> handleSendMessage f now s = s) \<and>
   in_flight (chat_run evs (mount g)) \<le> 1 \<and>
   (in_flight (chat_run evs (mount g)) = 1) = isLoading (panel (chat_run evs (mount g)))"
  using chat_run_invariant [OF mount_invariant, of evs g]
  by (simp add: handleSendMessage_def)

lemma busy_panel_eq:
  "busy_panel =
     \<lparr> inputValue = ''Is this normal?'',
       messages = [context_message flood_finding,
                   user_message 1700000000000 ''What does this mean?''],
       currentFindingId = Some 1, isLoading = True, chat_toasts = [],
       chat_network = [SendChatMessage 1 ''What does this mean?''] \<rparr>"
  by (simp add: busy_panel_def chat_run_def mount_def panel_def finding_effect_def
      initial_ChatPanel_def setInputValue_def handleSendMessage_def not_blank_question
      flood_finding_def)

theorem send_while_busy_is_noop_witness:
  "isLoading busy_panel \<and>
   handleSendMessage flood_finding 1700000000500 busy_panel = busy_panel \<and>
   chat_network (handleSendMessage flood_finding 1700000000500 busy_panel) =
     [SendChatMessage 1 ''What does this mean?'']"
proof -
  have l: "isLoading busy_panel"
    by (simp add: busy_panel_eq)
  have n: "chat_network busy_panel = [SendChatMessage 1 ''What does this mean?'']"
    by (simp add: busy_panel_eq)
  show ?thesis
    using send_while_busy_is_noop [of busy_panel flood_finding 1700000000500 "[]" flood_finding] l n
    by simp
qed

text \<open>
  C7. A send that passes the guard appends the user message and issues the one chat
  request at once, before any response, and sets the busy flag. When the request succeeds,
  the reply is appended; when it fails, the fallback message about an error processing the
  question is appended and a destructive toast is shown besides. In both cases no further
  request is made (nothing is retried) and the busy flag is cleared, so that after a
  failure the next non-blank question is sent as usual.
\<close>

theorem send_lifecycle:
  assumes "\<not> blank (inputValue s)" and "\<not> isLoading s"
  shows "messages (handleSendMessage f now s) = messages s @ [user_message now (inputValue s)] \<and>
         chat_network (handleSendMessage f now s) =
           chat_network s @ [SendChatMessage (finding_id f) (inputValue s)] \<and>
         isLoading (handleSendMessage f now s) \<and>
         messages (handleSendMessage_settled (Inr response) later t) =
           messages t @ [bot_message later (answer response)] \<and>
         chat_toasts (handleSendMessage_settled (Inr response) later t) = chat_toasts t \<and>
         chat_network (handleSendMessage_settled (Inr response) later t) = chat_network t \<and>
         \<not> isLoading (handleSendMessage_settled (Inr response) later t) \<and>
         messages (handleSendMessage_settled (Inl err) later t) =
           messages t @ [bot_message later fallback_text] \<and>
         chat_toasts (handleSendMessage_settled (Inl err) later t) =
           chat_toasts t @
             [\<lparr> toast_title = ''Chat Error'',
                toast_description = or_else (detail err) ''Failed to send message'',
                toast_variant = Destructive \<rparr>] \<and>
         chat_network (handleSendMessage_settled (Inl err) later t) = chat_network t \<and>
         \<not> isLoading (handleSendMessage_settled (Inl err) later t) \<and>
         (\<not> blank q \<longrightarrow>
            chat_network (handleSendMessage f again
                (setInputValue q (handleSendMessage_settled (Inl err) later t))) =
              chat_network t @ [SendChatMessage (finding_id f) q])"
  using assms
  by (simp add: handleSendMessage_def handleSendMessage_settled_def setInputValue_def)

lemma busy_panel_sent:
  "handleSendMessage flood_finding 1700000000000
     (setInputValue ''What does this mean?'' (finding_effect flood_finding initial_ChatPanel)) =
   busy_panel \<lparr> inputValue := [] \<rparr>"
  by (simp add: busy_panel_eq finding_effect_def
      initial_ChatPanel_def setInputValue_def handleSendMessage_def not_blank_question
      flood_finding_def)

theorem send_lifecycle_witness:
  "messages (handleSendMessage flood_finding 1700000000000
       (setInputValue ''What does this mean?'' (finding_effect flood_finding initial_ChatPanel))) =
     [context_message flood_finding, user_message 1700000000000 ''What does this mean?''] \<and>
   messages (handleSendMessage_settled (Inr sample_response) 1700000002000 busy_panel) =
     [context_message flood_finding, user_message 1700000000000 ''What does this mean?'',
      bot_message 1700000002000 ''Flood damage is not covered by this policy.''] \<and>
   messages (handleSendMessage_settled (Inl sample_error) 1700000002000 busy_panel) =
     [context_message flood_finding, user_message 1700000000000 ''What does this mean?'',
      bot_message 1700000002000 fallback_text] \<and>
   chat_toasts (handleSendMessage_settled (Inl sample_error) 1700000002000 busy_panel) =
     [\<lparr> toast_title = ''Chat Error'', toast_description = ''Failed to send message'',
        toast_variant = Destructive \<rparr>] \<and>
   chat_network (handleSendMessage flood_finding 1700000003000
       (setInputValue ''Is this normal?''
          (handleSendMessage_settled (Inl sample_error) 1700000002000 busy_panel))) =
     [SendChatMessage 1 ''What does this mean?'', SendChatMessage 1 ''Is this normal?'']"
proof -
  let ?s = "setInputValue ''What does this mean?'' (finding_effect flood_finding initial_ChatPanel)"
  have a: "\<not> blank (inputValue ?s)"
    by (simp add: setInputValue_def not_blank_question)
  have b: "\<not> isLoading ?s"
    by (simp add: setInputValue_def initial_ChatPanel_def)
  have c: "\<not> blank ''Is this normal?''"
    by (simp add: blank_def is_js_space_def)
  have m: "messages ?s = [context_message flood_finding] \<and> inputValue ?s = ''What does this mean?''"
    by (simp add: setInputValue_def finding_effect_def initial_ChatPanel_def)
  show ?thesis
    using send_lifecycle [OF a b, of flood_finding 1700000000000 sample_response 1700000002000
        busy_panel sample_error "''Is this normal?''" 1700000003000] c m
    by (simp add: busy_panel_eq sample_response_def sample_error_def flood_finding_def)
qed

subsection \<open>Endpoints\<close>

text \<open>
  C9 does not hold of the code. In a deployment on \<^verbatim>\<open>vercel.app\<close>, with or without
  \<^verbatim>\<open>VITE_API_URL\<close>, the base URL resolves to a hosted service and the calls of
  \<^verbatim>\<open>apiService\<close> go there, but the document viewer fetches the PDF from the literal
  \<^verbatim>\<open>http://localhost:7860\<close>, which is not resolved from the setting.
\<close>

theorem pdf_fetch_bypasses_base_url:
  "API_BASE_URL deployed_environment = ''https://raykarr-insurance-document-analyzer-api.hf.space'' \<and>
   request_url deployed_environment (GetFindings ''abc123'') =
     ''https://raykarr-insurance-document-analyzer-api.hf.space/findings/abc123'' \<and>
   map (request_url deployed_environment) (pdfViewer_effect (Some ''abc123'')) =
     [''http://localhost:7860/documents/abc123/pdf#view=FitH&toolbar=1''] \<and>
   API_BASE_URL configured_environment = ''https://your-app-name.vercel.app/api'' \<and>
   request_url configured_environment (GetFindings ''abc123'') =
     ''https://your-app-name.vercel.app/api/findings/abc123'' \<and>
   map (request_url configured_environment) (pdfViewer_effect (Some ''abc123'')) =
     [''http://localhost:7860/documents/abc123/pdf#view=FitH&toolbar=1'']"
  by (simp add: deployed_environment_def configured_environment_def API_BASE_URL_def
      inferredDefaultBaseUrl_def endsWith_def combineURLs_def pdfViewer_effect_def pdfUrl_def)

end
